theory Spec2Isabelle
  imports Main
begin

section \<open>Python values used by the role handlers\<close>

text \<open>
  The module \<^verbatim>\<open>bokeh/sphinxext/_internal/bokeh_roles.py\<close> defines six docutils role
  functions. Each takes \<^verbatim>\<open>(name, rawtext, text, lineno, inliner, options, content)\<close> and
  returns a pair of lists: the nodes to insert and the system messages.

  A Python \<^verbatim>\<open>str\<close> is modelled as a \<open>string\<close> with one \<open>char\<close> per code point, so the
  model covers texts whose code points are below 256 (ASCII and Latin-1). An exception
  that leaves a handler is the \<open>Inl\<close> branch of its result.
\<close>

datatype exn =
    ValueError
  | AssertionError
  | TypeError
  | KeyError string
  | LoadError
  | AttributeError
  | IndexError

subsection \<open>\<^verbatim>\<open>int(text)\<close>\<close>

text \<open>
  CPython's \<^verbatim>\<open>int\<close> on a \<^verbatim>\<open>str\<close> (base 10): surrounding whitespace is skipped, one
  sign is allowed, then at least one decimal digit follows, with single underscores
  allowed between digits; anything else raises \<^verbatim>\<open>ValueError\<close>. Below code point 256 the
  accepted blanks are tab, line feed, vertical tab, form feed, carriage return, space,
  U+0085 and U+00A0, and the decimal digits are \<^verbatim>\<open>0\<close> to \<^verbatim>\<open>9\<close>.

  The scan counts the digit characters (leading zeros included, underscores and the sign
  not), and \<^verbatim>\<open>int\<close> raises \<^verbatim>\<open>ValueError\<close> when there are more than
  \<^verbatim>\<open>sys.get_int_max_str_digits()\<close> of them: 4300 unless the interpreter is configured
  otherwise.
\<close>

definition max_str_digits :: nat where
  "max_str_digits = 4300"

definition py_isspace :: "char \<Rightarrow> bool" where
  "py_isspace c = (of_char c \<in> set [9, 10, 11, 12, 13, 32, 133, 160 :: nat])"

definition py_isdecimal :: "char \<Rightarrow> bool" where
  "py_isdecimal c = (48 \<le> (of_char c :: nat) \<and> (of_char c :: nat) \<le> 57)"

definition digit_value :: "char \<Rightarrow> nat" where
  "digit_value c = of_char c - 48"

fun scan_digits :: "nat \<Rightarrow> nat \<Rightarrow> string \<Rightarrow> (nat \<times> nat \<times> string) option" where
  "scan_digits acc digits [] = Some (acc, digits, [])"
| "scan_digits acc digits [c] =
     (if py_isdecimal c then Some (10 * acc + digit_value c, Suc digits, [])
      else if c = CHR ''_'' then None
      else Some (acc, digits, [c]))"
| "scan_digits acc digits (c # d # ds) =
     (if py_isdecimal c then scan_digits (10 * acc + digit_value c) (Suc digits) (d # ds)
      else if c = CHR ''_'' then
        (if py_isdecimal d then scan_digits (10 * acc + digit_value d) (Suc digits) ds else None)
      else Some (acc, digits, c # d # ds))"

definition py_int :: "string \<Rightarrow> exn + int" where
  "py_int text =
     (let s = dropWhile py_isspace text;
          negative = (case s of [] \<Rightarrow> False | c # _ \<Rightarrow> c = CHR ''-'');
          s = (case s of [] \<Rightarrow> [] | c # r \<Rightarrow> if c = CHR ''+'' \<or> c = CHR ''-'' then r else s)
      in case s of
           [] \<Rightarrow> Inl ValueError
         | c # _ \<Rightarrow>
             if \<not> py_isdecimal c then Inl ValueError
             else (case scan_digits 0 0 s of
                     None \<Rightarrow> Inl ValueError
                   | Some (n, digits, rest) \<Rightarrow>
                       if max_str_digits < digits then Inl ValueError
                       else if dropWhile py_isspace rest = []
                       then Inr (if negative then - int n else int n)
                       else Inl ValueError))"

subsection \<open>\<^verbatim>\<open>str(n)\<close> on an integer\<close>

text \<open>
  \<^verbatim>\<open>str\<close> has the same limit on the digits it prints. The handlers print only integers
  that \<^verbatim>\<open>int\<close> returned, which are below \<open>10 ^ max_str_digits\<close> in absolute value
  (\<open>py_int_within_limit\<close> below), so the limit cannot apply there and is left out.
\<close>

definition digit_char :: "nat \<Rightarrow> char" where
  "digit_char d = char_of (48 + d)"

fun str_nat :: "nat \<Rightarrow> string" where
  "str_nat n = (if n < 10 then [digit_char n] else str_nat (n div 10) @ [digit_char (n mod 10)])"

declare str_nat.simps [simp del]

definition py_str :: "int \<Rightarrow> string" where
  "py_str i = (if i < 0 then CHR ''-'' # str_nat (nat (- i)) else str_nat (nat i))"

subsection \<open>\<^verbatim>\<open>repr(text)\<close> on a string, as \<^verbatim>\<open>{text!r}\<close> formats it\<close>

text \<open>
  CPython quotes with \<^verbatim>\<open>'\<close>, unless the string has a \<^verbatim>\<open>'\<close> and no \<^verbatim>\<open>"\<close>. The quote
  character and the backslash are escaped with a backslash; tab, line feed and carriage
  return become \<^verbatim>\<open>\t\<close>, \<^verbatim>\<open>\n\<close>, \<^verbatim>\<open>\r\<close>; every other non-printable character below 256
  becomes \<^verbatim>\<open>\xhh\<close>.
\<close>

definition squote :: char where "squote = CHR 0x27"
definition dquote :: char where "dquote = CHR 0x22"
definition backslash :: char where "backslash = CHR 0x5C"

definition py_isprintable :: "char \<Rightarrow> bool" where
  "py_isprintable c =
     (let n = of_char c :: nat
      in (32 \<le> n \<and> n < 127) \<or> (161 \<le> n \<and> n \<noteq> 173))"

definition hexdigit :: "nat \<Rightarrow> char" where
  "hexdigit d = (if d < 10 then char_of (48 + d) else char_of (87 + d))"

definition hex_escape :: "char \<Rightarrow> string" where
  "hex_escape c =
     [backslash, CHR ''x'', hexdigit ((of_char c :: nat) div 16), hexdigit ((of_char c :: nat) mod 16)]"

definition repr_char :: "char \<Rightarrow> char \<Rightarrow> string" where
  "repr_char quote ch =
     (let n = of_char ch :: nat
      in if ch = quote \<or> ch = backslash then [backslash, ch]
         else if n = 9 then [backslash, CHR ''t'']
         else if n = 10 then [backslash, CHR ''n'']
         else if n = 13 then [backslash, CHR ''r'']
         else if n < 32 \<or> n = 127 then hex_escape ch
         else if n < 127 then [ch]
         else if \<not> py_isprintable ch then hex_escape ch
         else [ch])"

definition py_repr :: "string \<Rightarrow> string" where
  "py_repr s =
     (let quote = (if squote \<in> set s \<and> dquote \<notin> set s then dquote else squote)
      in quote # concat (map (repr_char quote) s) @ [quote])"

subsection \<open>\<^verbatim>\<open>docutils.utils.unescape\<close>\<close>

text \<open>
  docutils hands a role its text with every backslash of the source replaced by a NUL
  character. \<^verbatim>\<open>unescape(text)\<close> removes, in three passes, every \<^verbatim>\<open>"\x00 "\<close>, then every
  \<^verbatim>\<open>"\x00\n"\<close>, then every \<^verbatim>\<open>"\x00"\<close>; each pass is \<^verbatim>\<open>''.join(text.split(sep))\<close>.
\<close>

fun strip_prefix :: "string \<Rightarrow> string \<Rightarrow> string option" where
  "strip_prefix [] s = Some s"
| "strip_prefix (p # ps) [] = None"
| "strip_prefix (p # ps) (c # cs) = (if p = c then strip_prefix ps cs else None)"

function split_join :: "char \<Rightarrow> string \<Rightarrow> string \<Rightarrow> string" where
  "split_join p ps [] = []"
| "split_join p ps (c # cs) =
     (case strip_prefix (p # ps) (c # cs) of
        Some rest \<Rightarrow> split_join p ps rest
      | None \<Rightarrow> c # split_join p ps cs)"
  by pat_completeness auto
termination
proof (relation "measure (\<lambda>(p, ps, s). length s)")
  show "wf (measure (\<lambda>(p :: char, ps :: string, s :: string). length s))" by simp
next
  fix p :: char and ps cs rest :: string and c :: char
  assume stripped: "strip_prefix (p # ps) (c # cs) = Some rest"
  have "strip_prefix q s = Some r \<Longrightarrow> length r + length q = length s" for q s r
    by (induction q s rule: strip_prefix.induct) (auto split: if_splits)
  from this [OF stripped]
  show "((p, ps, rest), (p, ps, c # cs)) \<in> measure (\<lambda>(p, ps, s). length s)" by simp
next
  fix p :: char and ps cs :: string and c :: char
  show "((p, ps, cs), (p, ps, c # cs)) \<in> measure (\<lambda>(p, ps, s). length s)" by simp
qed

definition unescape :: "string \<Rightarrow> string" where
  "unescape text =
     split_join (CHR 0x00) []
       (split_join (CHR 0x00) [CHR 0x0A]
         (split_join (CHR 0x00) [CHR '' ''] text))"

section \<open>The docutils and Sphinx objects the handlers touch\<close>

text \<open>
  A node value records the arguments its docutils constructor was called with:
  \<^verbatim>\<open>nodes.reference(rawsource, text, refuri=..., **options)\<close>,
  \<^verbatim>\<open>nodes.problematic(rawsource, text, refid=<id of the message>)\<close>, \<^verbatim>\<open>nodes.Text(data)\<close>,
  \<^verbatim>\<open>nodes.bullet_list()\<close> with its children and \<^verbatim>\<open>nodes.list_item(rawsource, *children)\<close>.
  The \<^verbatim>\<open>options\<close> dictionary is an association list in insertion order.
\<close>

type_synonym options = "(string \<times> string list) list"

datatype system_message =
  System_message nat string int

datatype node =
    Reference string string string options
  | Problematic string string system_message
  | Text string
  | Bullet_list "node list"
  | List_item string "node list"

type_synonym role_result = "exn + node list \<times> system_message list"

text \<open>
  \<^verbatim>\<open>inliner.document.settings.env.app\<close> is the Sphinx application; the only value read
  from it is \<^verbatim>\<open>app.env.config["version"]\<close>.
\<close>

record sphinx_app =
  config_version :: string

record inliner =
  env_app :: sphinx_app

text \<open>
  \<^verbatim>\<open>inliner.reporter.error(text, line=lineno)\<close> builds a system message of level 3
  (ERROR); the reporter is taken not to halt at that level, as under Sphinx.
  \<^verbatim>\<open>inliner.problematic(text, rawsource, message)\<close> builds the problematic node that
  refers to the message; the identifiers it allocates in the document are left out.
\<close>

definition reporter_error :: "string \<Rightarrow> int \<Rightarrow> system_message" where
  "reporter_error text lineno = System_message 3 text lineno"

definition problematic :: "string \<Rightarrow> string \<Rightarrow> system_message \<Rightarrow> node" where
  "problematic text rawsource msg = Problematic rawsource text msg"

text \<open>
  \<^verbatim>\<open>docutils.parsers.rst.roles.set_classes(options)\<close>: when the key \<^verbatim>\<open>'class'\<close> is
  present it asserts that \<^verbatim>\<open>'classes'\<close> is absent and then runs
  \<^verbatim>\<open>options['classes'] = options.pop('class')\<close>.
\<close>

definition dict_get :: "options \<Rightarrow> string \<Rightarrow> string list option" where
  "dict_get d k = map_of d k"

definition dict_pop :: "options \<Rightarrow> string \<Rightarrow> options" where
  "dict_pop d k = filter (\<lambda>kv. fst kv \<noteq> k) d"

definition set_classes :: "options \<Rightarrow> exn + options" where
  "set_classes options =
     (case dict_get options ''class'' of
        None \<Rightarrow> Inr options
      | Some v \<Rightarrow>
          (case dict_get options ''classes'' of
             Some _ \<Rightarrow> Inl AssertionError
           | None \<Rightarrow> Inr (dict_pop options ''class'' @ [(''classes'', v)])))"

text \<open>
  The call \<^verbatim>\<open>nodes.reference(rawtext, text, refuri=url, **options)\<close> raises
  \<^verbatim>\<open>TypeError\<close> when \<^verbatim>\<open>options\<close> repeats a parameter that the call already binds:
  \<^verbatim>\<open>self\<close>, \<^verbatim>\<open>rawsource\<close>, \<^verbatim>\<open>text\<close> or \<^verbatim>\<open>refuri\<close>.
\<close>

definition bound_parameters :: "string list" where
  "bound_parameters = [''self'', ''rawsource'', ''text'', ''refuri'']"

definition reference :: "string \<Rightarrow> string \<Rightarrow> string \<Rightarrow> options \<Rightarrow> exn + node" where
  "reference rawsource text refuri kwargs =
     (if filter (\<lambda>kv. fst kv \<in> set bound_parameters) kwargs = []
      then Inr (Reference rawsource text refuri kwargs)
      else Inl TypeError)"

text \<open>
  \<^verbatim>\<open>node.astext()\<close> is the text a node shows. docutils' \<^verbatim>\<open>Text.astext\<close> returns
  \<^verbatim>\<open>unescape(data)\<close>; a reference and a problematic node hold their text as one
  \<^verbatim>\<open>Text\<close> child and join their children with the empty string; a bullet list and a
  list item join the texts of their children with two line feeds.
\<close>

fun py_join :: "string \<Rightarrow> string list \<Rightarrow> string" where
  "py_join sep [] = []"
| "py_join sep [x] = x"
| "py_join sep (x # y # ys) = x @ sep @ py_join sep (y # ys)"

fun astext :: "node \<Rightarrow> string" where
  "astext (Reference rawsource text refuri kwargs) = unescape text"
| "astext (Problematic rawsource text msg) = unescape text"
| "astext (Text data) = unescape data"
| "astext (Bullet_list children) = py_join [CHR 0x0A, CHR 0x0A] (map astext children)"
| "astext (List_item rawsource children) = py_join [CHR 0x0A, CHR 0x0A] (map astext children)"

section \<open>The role handlers\<close>

definition BOKEH_GH :: string where
  "BOKEH_GH = ''https://github.com/bokeh/bokeh''"

definition make_gh_link_node ::
  "sphinx_app \<Rightarrow> string \<Rightarrow> string \<Rightarrow> string \<Rightarrow> string \<Rightarrow> string \<Rightarrow> options option \<Rightarrow> exn + node"
where
  "make_gh_link_node app rawtext role kind api_type ident options =
     (let url = BOKEH_GH @ ''/'' @ api_type @ ''/'' @ ident;
          options = (case options of None \<Rightarrow> [] | Some d \<Rightarrow> d)
      in case set_classes options of
           Inl e \<Rightarrow> Inl e
         | Inr options \<Rightarrow> reference rawtext (kind @ unescape ident) url options)"

definition bokeh_commit ::
  "string \<Rightarrow> string \<Rightarrow> string \<Rightarrow> int \<Rightarrow> inliner \<Rightarrow> options option \<Rightarrow> string list \<Rightarrow> role_result"
where
  "bokeh_commit name rawtext text lineno inl options content =
     (let app = env_app inl
      in case make_gh_link_node app rawtext ''commit'' ''commit '' ''commit'' text options of
           Inl e \<Rightarrow> Inl e
         | Inr node \<Rightarrow> Inr ([node], []))"

definition bokeh_issue ::
  "string \<Rightarrow> string \<Rightarrow> string \<Rightarrow> int \<Rightarrow> inliner \<Rightarrow> options option \<Rightarrow> string list \<Rightarrow> role_result"
where
  "bokeh_issue name rawtext text lineno inl options content =
     (let app = env_app inl
      in case (case py_int text of
                 Inl e \<Rightarrow> Inl e
               | Inr issue_num \<Rightarrow> if issue_num \<le> 0 then Inl ValueError else Inr issue_num) of
           Inl ValueError \<Rightarrow>
             (let msg = reporter_error
                    (''Github issue number must be a number greater than or equal to 1; ''
                       @ py_repr text @ '' is invalid.'') lineno;
                  prb = problematic rawtext rawtext msg
              in Inr ([prb], [msg]))
         | Inl e \<Rightarrow> Inl e
         | Inr issue_num \<Rightarrow>
             (case make_gh_link_node app rawtext ''issue'' ''#'' ''issues'' (py_str issue_num) options of
                Inl e \<Rightarrow> Inl e
              | Inr node \<Rightarrow> Inr ([node], [])))"

definition bokeh_pull ::
  "string \<Rightarrow> string \<Rightarrow> string \<Rightarrow> int \<Rightarrow> inliner \<Rightarrow> options option \<Rightarrow> string list \<Rightarrow> role_result"
where
  "bokeh_pull name rawtext text lineno inl options content =
     (let app = env_app inl
      in case (case py_int text of
                 Inl e \<Rightarrow> Inl e
               | Inr issue_num \<Rightarrow> if issue_num \<le> 0 then Inl ValueError else Inr issue_num) of
           Inl ValueError \<Rightarrow>
             (let msg = reporter_error
                    (''Github pull request number must be a number greater than or equal to 1; ''
                       @ py_repr text @ '' is invalid.'') lineno;
                  prb = problematic rawtext rawtext msg
              in Inr ([prb], [msg]))
         | Inl e \<Rightarrow> Inl e
         | Inr issue_num \<Rightarrow>
             (case make_gh_link_node app rawtext ''pull'' ''pull request '' ''pull'' (py_str issue_num) options of
                Inl e \<Rightarrow> Inl e
              | Inr node \<Rightarrow> Inr ([node], [])))"

definition bokeh_tree ::
  "string \<Rightarrow> string \<Rightarrow> string \<Rightarrow> int \<Rightarrow> inliner \<Rightarrow> options option \<Rightarrow> string list \<Rightarrow> role_result"
where
  "bokeh_tree name rawtext text lineno inl options content =
     (let app = env_app inl;
          tag = config_version app;
          tag = (if CHR ''-'' \<in> set tag then ''main'' else tag);
          url = BOKEH_GH @ ''/tree/'' @ tag @ ''/'' @ text;
          options = (case options of None \<Rightarrow> [] | Some d \<Rightarrow> d)
      in case set_classes options of
           Inl e \<Rightarrow> Inl e
         | Inr options \<Rightarrow>
             (case reference rawtext text url options of
                Inl e \<Rightarrow> Inl e
              | Inr node \<Rightarrow> Inr ([node], [])))"

subsection \<open>The roles that read \<^verbatim>\<open>pyproject.toml\<close>\<close>

text \<open>
  \<^verbatim>\<open>toml.load(join(REPO_TOP, "pyproject.toml"))\<close> runs inside each call, so the handler
  takes the file as the call finds it: \<open>None\<close> when it is missing or is not TOML (the
  load raises), otherwise the parsed document. Of the document only the table
  \<^verbatim>\<open>project\<close> and its keys \<^verbatim>\<open>requires-python\<close> (a string) and \<^verbatim>\<open>dependencies\<close> (a list of
  strings) are modelled, each possibly absent; values of another TOML type under these
  keys are outside the model.
\<close>

record project_table =
  requires_python :: "string option"
  dependencies :: "string list option"

record pyproject =
  project :: "project_table option"

definition toml_load :: "pyproject option \<Rightarrow> exn + pyproject" where
  "toml_load file = (case file of None \<Rightarrow> Inl LoadError | Some doc \<Rightarrow> Inr doc)"

text \<open>\<^verbatim>\<open>s.lstrip(chars)\<close> drops leading characters while they occur in \<^verbatim>\<open>chars\<close>.\<close>

definition py_lstrip :: "string \<Rightarrow> string \<Rightarrow> string" where
  "py_lstrip chars s = dropWhile (\<lambda>c. c \<in> set chars) s"

definition bokeh_minpy ::
  "pyproject option \<Rightarrow> string \<Rightarrow> string \<Rightarrow> string \<Rightarrow> int \<Rightarrow> inliner \<Rightarrow> options option \<Rightarrow> string list
     \<Rightarrow> role_result"
where
  "bokeh_minpy file name rawtext text lineno inl options content =
     (case toml_load file of
        Inl e \<Rightarrow> Inl e
      | Inr pyproject \<Rightarrow>
          (case project pyproject of
             None \<Rightarrow> Inl (KeyError ''project'')
           | Some table \<Rightarrow>
               (case requires_python table of
                  None \<Rightarrow> Inl (KeyError ''requires-python'')
                | Some constraint \<Rightarrow> Inr ([Text (py_lstrip ''>='' constraint)], []))))"

text \<open>
  The loop \<^verbatim>\<open>for dep in ...: node += nodes.list_item("", nodes.Text(dep))\<close> appends one
  child to the bullet list per dependency; \<open>requires_loop\<close> carries the children so far.
\<close>

fun requires_loop :: "node list \<Rightarrow> string list \<Rightarrow> node list" where
  "requires_loop children [] = children"
| "requires_loop children (dep # deps) =
     requires_loop (children @ [List_item [] [Text dep]]) deps"

definition bokeh_requires ::
  "pyproject option \<Rightarrow> string \<Rightarrow> string \<Rightarrow> string \<Rightarrow> int \<Rightarrow> inliner \<Rightarrow> options option \<Rightarrow> string list
     \<Rightarrow> role_result"
where
  "bokeh_requires file name rawtext text lineno inl options content =
     (case toml_load file of
        Inl e \<Rightarrow> Inl e
      | Inr pyproject \<Rightarrow>
          (case project pyproject of
             None \<Rightarrow> Inl (KeyError ''project'')
           | Some table \<Rightarrow>
               (case dependencies table of
                  None \<Rightarrow> Inl (KeyError ''dependencies'')
                | Some deps \<Rightarrow> Inr ([Bullet_list (requires_loop [] deps)], []))))"

section \<open>The table of mirrors in \<^verbatim>\<open>release/__init__.py\<close>\<close>












section \<open>Notions used to state the properties\<close>

text \<open>
  \<open>accepted_options options kw\<close>: the handler's \<^verbatim>\<open>options\<close> argument passes
  \<^verbatim>\<open>options or {}\<close> and \<^verbatim>\<open>set_classes\<close> and leaves the keyword arguments \<open>kw\<close>, none of
  which clashes with a parameter of the \<^verbatim>\<open>nodes.reference\<close> call. The default \<open>None\<close>,
  the empty dictionary, and a dictionary holding only \<^verbatim>\<open>class\<close> or only \<^verbatim>\<open>classes\<close> (all
  that the \<^verbatim>\<open>role\<close> directive can supply to these roles) are accepted.
\<close>

definition accepted_options :: "options option \<Rightarrow> options \<Rightarrow> bool" where
  "accepted_options options kw =
     (set_classes (case options of None \<Rightarrow> [] | Some d \<Rightarrow> d) = Inr kw \<and>
      filter (\<lambda>kv. fst kv \<in> set bound_parameters) kw = [])"






text \<open>Python's \<^verbatim>\<open>sub in s\<close> on strings, and the link nodes of a node list.\<close>

fun py_contains :: "string \<Rightarrow> string \<Rightarrow> bool" where
  "py_contains sub [] = (sub = [])"
| "py_contains sub (c # cs) = (strip_prefix sub (c # cs) \<noteq> None \<or> py_contains sub cs)"

fun is_link :: "node \<Rightarrow> bool" where
  "is_link (Reference _ _ _ _) = True"
| "is_link _ = False"

text \<open>
  A text that \<^verbatim>\<open>repr\<close> only wraps in quotes: every character is printable, none is a
  backslash, and the two quote characters do not both occur.
\<close>

definition plain_text :: "string \<Rightarrow> bool" where
  "plain_text t =
     (list_all (\<lambda>c. py_isprintable c \<and> c \<noteq> backslash) t \<and>
      \<not> (squote \<in> set t \<and> dquote \<in> set t))"

text \<open>
  The contract the specification gives the two numeric roles, with the noun of the error
  message, the label prefix and the path segment as parameters: parse the text as an
  integer; when that fails or the integer is not positive, report one error that names the
  text and return a problematic node; otherwise build one link whose identifier is the
  integer printed again.
\<close>

definition numeric_id_role ::
  "string \<Rightarrow> string \<Rightarrow> string \<Rightarrow> string \<Rightarrow> string \<Rightarrow> int \<Rightarrow> options option \<Rightarrow> role_result"
where
  "numeric_id_role noun kind api_type rawtext text lineno options =
     (case py_int text of
        Inr n \<Rightarrow>
          if 0 < n
          then (case set_classes (case options of None \<Rightarrow> [] | Some d \<Rightarrow> d) of
                  Inl e \<Rightarrow> Inl e
                | Inr kw \<Rightarrow>
                    (case reference rawtext (kind @ py_str n)
                            (BOKEH_GH @ ''/'' @ api_type @ ''/'' @ py_str n) kw of
                       Inl e \<Rightarrow> Inl e
                     | Inr link \<Rightarrow> Inr ([link], [])))
          else (let msg = System_message 3
                      (''Github '' @ noun @ '' number must be a number greater than or equal to 1; ''
                         @ py_repr text @ '' is invalid.'') lineno
                in Inr ([Problematic rawtext rawtext msg], [msg]))
      | Inl _ \<Rightarrow>
          (let msg = System_message 3
                 (''Github '' @ noun @ '' number must be a number greater than or equal to 1; ''
                    @ py_repr text @ '' is invalid.'') lineno
           in Inr ([Problematic rawtext rawtext msg], [msg])))"

text \<open>
  The specification's wording for the minimum-version role, "strip any leading comparison
  operator characters", with the characters of the version comparison operators
  \<^verbatim>\<open><\<close>, \<^verbatim>\<open>>\<close>, \<^verbatim>\<open>=\<close>, \<^verbatim>\<open>!\<close> and \<^verbatim>\<open>~\<close>.
\<close>

definition strip_comparison_operators :: "string \<Rightarrow> string" where
  "strip_comparison_operators s = dropWhile (\<lambda>c. c \<in> set ''<>=!~'') s"

section \<open>Facts about the primitives\<close>

lemma of_char_digit_char: "d < 10 \<Longrightarrow> (of_char (digit_char d) :: nat) = 48 + d"
  by (simp add: digit_char_def)

lemma str_nat_decimal: "c \<in> set (str_nat n) \<Longrightarrow> py_isdecimal c"
proof (induction n rule: str_nat.induct)
  case (1 n)
  show ?case
  proof (cases "n < 10")
    case True
    with "1.prems" show ?thesis
      by (simp add: str_nat.simps [of n] py_isdecimal_def of_char_digit_char)
  next
    case False
    have "n mod 10 < 10" by simp
    with False "1.prems" "1.IH" show ?thesis
      by (auto simp add: str_nat.simps [of n] py_isdecimal_def of_char_digit_char)
  qed
qed

lemma py_str_no_nul: "0 < n \<Longrightarrow> CHR 0x00 \<notin> set (py_str n)"
proof
  assume "0 < n" and "CHR 0x00 \<in> set (py_str n)"
  then have "py_isdecimal (CHR 0x00)"
    by (auto simp add: py_str_def dest: str_nat_decimal)
  then show False by (simp add: py_isdecimal_def)
qed

lemma split_join_absent: "p \<notin> set s \<Longrightarrow> split_join p ps s = s"
  by (induction s) auto

lemma unescape_no_nul: "CHR 0x00 \<notin> set s \<Longrightarrow> unescape s = s"
  by (simp add: unescape_def split_join_absent)

lemma strip_prefix_append: "strip_prefix sub (sub @ post) = Some post"
  by (induction sub) auto

lemma py_contains_infix: "py_contains sub (pre @ sub @ post)"
proof (induction pre)
  case Nil
  show ?case by (cases "sub @ post") (use strip_prefix_append [of sub post] in auto)
next
  case (Cons a pre)
  then show ?case by simp
qed

lemma accepted_none: "accepted_options None []"
  by (simp add: accepted_options_def set_classes_def dict_get_def)

lemma accepted_class: "accepted_options (Some [(''class'', v)]) [(''classes'', v)]"
  by (simp add: accepted_options_def set_classes_def dict_get_def dict_pop_def bound_parameters_def)

lemma requires_loop_map:
  "requires_loop children deps = children @ map (\<lambda>dep. List_item [] [Text dep]) deps"
  by (induction deps arbitrary: children) auto

lemma repr_char_plain:
  "py_isprintable c \<Longrightarrow> c \<noteq> backslash \<Longrightarrow> c \<noteq> q \<Longrightarrow> repr_char q c = [c]"
  by (auto simp add: repr_char_def py_isprintable_def Let_def)

lemma concat_repr_plain:
  "list_all (\<lambda>c. py_isprintable c \<and> c \<noteq> backslash) t \<Longrightarrow> q \<notin> set t \<Longrightarrow>
   concat (map (repr_char q) t) = t"
  by (induction t) (auto simp add: repr_char_plain)

lemma py_repr_plain:
  "plain_text t \<Longrightarrow> \<exists>q. py_repr t = q # t @ [q]"
  by (auto simp add: plain_text_def py_repr_def concat_repr_plain)





section \<open>Properties of the roles\<close>

lemma py_int_error: "py_int t = Inl e \<Longrightarrow> e = ValueError"
  by (auto simp add: py_int_def Let_def split: list.splits if_splits option.splits)

lemma digit_value_below_ten: "py_isdecimal c \<Longrightarrow> digit_value c < 10"
  by (auto simp add: py_isdecimal_def digit_value_def)

lemma next_digit_bound:
  fixes acc v k :: nat
  assumes "acc < 10 ^ k" and "v < 10"
  shows "10 * acc + v < 10 ^ Suc k"
proof -
  from assms(1) have "Suc acc \<le> 10 ^ k" by simp
  then have "10 * Suc acc \<le> 10 * 10 ^ k" by (rule mult_le_mono2)
  with assms(2) show ?thesis by simp
qed

lemma scan_digits_bound:
  "scan_digits acc k s = Some (n, k', rest) \<Longrightarrow> acc < 10 ^ k \<Longrightarrow> n < 10 ^ k'"
proof (induction acc k s rule: scan_digits.induct)
  case (1 acc digits)
  then show ?case by simp
next
  case (2 acc digits c)
  then show ?case
    by (auto split: if_splits intro: next_digit_bound digit_value_below_ten)
next
  case (3 acc digits c d ds)
  show ?case
  proof (cases "py_isdecimal c")
    case True
    with "3.prems"(1)
    have scan: "scan_digits (10 * acc + digit_value c) (Suc digits) (d # ds) = Some (n, k', rest)"
      by simp
    from "3.prems"(2) digit_value_below_ten [OF True]
    have "10 * acc + digit_value c < 10 ^ Suc digits" by (rule next_digit_bound)
    with "3.IH"(1) [OF True scan] show ?thesis .
  next
    case False
    show ?thesis
    proof (cases "c = CHR ''_''")
      case underscore: True
      with False "3.prems"(1) have digit: "py_isdecimal d"
        and scan: "scan_digits (10 * acc + digit_value d) (Suc digits) ds = Some (n, k', rest)"
        by (auto split: if_splits)
      from "3.prems"(2) digit_value_below_ten [OF digit]
      have "10 * acc + digit_value d < 10 ^ Suc digits" by (rule next_digit_bound)
      with "3.IH"(2) [OF False underscore digit scan] show ?thesis .
    next
      case other: False
      with False "3.prems" show ?thesis by simp
    qed
  qed
qed

lemma scan_zeros_then_seven:
  "scan_digits acc k (replicate n (CHR ''0'') @ ''7'') = Some (10 ^ Suc n * acc + 7, k + Suc n, [])"
proof (induction n arbitrary: acc k)
  case 0
  show ?case by (simp add: py_isdecimal_def digit_value_def)
next
  case (Suc n)
  obtain d ds where tail: "replicate n (CHR ''0'') @ ''7'' = d # ds"
    by (cases "replicate n (CHR ''0'') @ ''7''") simp_all
  have "scan_digits acc k (replicate (Suc n) (CHR ''0'') @ ''7'') =
          scan_digits (10 * acc) (Suc k) (d # ds)"
    by (simp add: tail py_isdecimal_def digit_value_def)
  also have "\<dots> = Some (10 ^ Suc n * (10 * acc) + 7, Suc k + Suc n, [])"
    unfolding tail [symmetric] by (rule Suc.IH)
  finally show ?case by (simp add: mult.assoc)
qed

lemma over_long_number_rejected:
  "py_int (replicate (Suc max_str_digits) (CHR ''0'') @ ''7'') = Inl ValueError"
proof -
  let ?t = "replicate (Suc max_str_digits) (CHR ''0'') @ ''7''"
  have scan: "scan_digits 0 0 ?t = Some (7, Suc (Suc max_str_digits), [])"
    using scan_zeros_then_seven [of 0 0 "Suc max_str_digits"] by simp
  have head: "?t = CHR ''0'' # replicate max_str_digits (CHR ''0'') @ ''7''" by simp
  have "dropWhile py_isspace ?t = ?t"
    unfolding head by (simp add: py_isspace_def)
  then show ?thesis
    unfolding py_int_def Let_def scan [unfolded head] head
    by (simp add: py_isdecimal_def scan [unfolded head])
qed

lemma py_int_within_limit:
  assumes "py_int t = Inr n"
  shows "\<bar>n\<bar> < 10 ^ max_str_digits"
proof -
  from assms obtain s m k rest where
    scan: "scan_digits 0 0 s = Some (m, k, rest)" and k: "k \<le> max_str_digits"
    and n: "n = int m \<or> n = - int m"
    by (auto simp add: py_int_def Let_def split: list.splits if_splits option.splits)
  from scan_digits_bound [OF scan] have "m < 10 ^ k" by simp
  also from k have "(10 :: nat) ^ k \<le> 10 ^ max_str_digits" by (simp add: power_increasing)
  finally have "int m < int (10 ^ max_str_digits)" by (simp only: of_nat_less_iff)
  with n show ?thesis by auto
qed

lemma link_node_accepted:
  "accepted_options options kw \<Longrightarrow>
   make_gh_link_node app rawtext role kind api_type ident options =
     Inr (Reference rawtext (kind @ unescape ident) (BOKEH_GH @ ''/'' @ api_type @ ''/'' @ ident) kw)"
  by (simp add: accepted_options_def make_gh_link_node_def reference_def Let_def)

lemma minpy_well_formed:
  assumes "file = Some \<lparr>project = Some table\<rparr>" and "requires_python table = Some constraint"
  shows "bokeh_minpy file name rawtext text lineno inl options content =
           Inr ([Text (py_lstrip ''>='' constraint)], [])"
  using assms by (simp add: bokeh_minpy_def toml_load_def)

lemma py_lstrip_gt_eq:
  "py_lstrip ''>='' s = dropWhile (\<lambda>c. c = CHR ''>'' \<or> c = CHR ''='') s"
  by (simp add: py_lstrip_def)

lemma lstrip_splits:
  fixes P :: "char \<Rightarrow> bool"
  shows "s = takeWhile P s @ dropWhile P s"
    and "\<forall>c \<in> set (takeWhile P s). P c"
    and "dropWhile P s = [] \<or> \<not> P (hd (dropWhile P s))"
    and "s = c # rest \<Longrightarrow> \<not> P c \<Longrightarrow> dropWhile P s = s"
proof -
  show "s = takeWhile P s @ dropWhile P s" by simp
  show "\<forall>c \<in> set (takeWhile P s). P c" by (auto dest: set_takeWhileD)
  show "dropWhile P s = [] \<or> \<not> P (hd (dropWhile P s))"
    using hd_dropWhile [of P s] by blast
  show "s = c # rest \<Longrightarrow> \<not> P c \<Longrightarrow> dropWhile P s = s" by simp
qed

lemma valid_issue:
  assumes "py_int t = Inr n" and "0 < n" and "accepted_options options kw"
  shows "bokeh_issue name rawtext t lineno inl options content =
           Inr ([Reference rawtext (''#'' @ py_str n) (BOKEH_GH @ ''/issues/'' @ py_str n) kw], [])"
  using assms
  by (simp add: bokeh_issue_def link_node_accepted unescape_no_nul py_str_no_nul)

lemma valid_pull:
  assumes "py_int t = Inr n" and "0 < n" and "accepted_options options kw"
  shows "bokeh_pull name rawtext t lineno inl options content =
           Inr ([Reference rawtext (''pull request '' @ py_str n)
                   (BOKEH_GH @ ''/pull/'' @ py_str n) kw], [])"
  using assms
  by (simp add: bokeh_pull_def link_node_accepted unescape_no_nul py_str_no_nul)

lemma invalid_number:
  assumes "\<not> (\<exists>n. py_int t = Inr n \<and> 0 < n)"
  shows "(case py_int t of
            Inl e \<Rightarrow> Inl e
          | Inr issue_num \<Rightarrow> if issue_num \<le> 0 then Inl ValueError else Inr issue_num)
         = Inl ValueError"
  using assms py_int_error [of t] by (cases "py_int t") auto

lemma invalid_issue:
  assumes "\<not> (\<exists>n. py_int t = Inr n \<and> 0 < n)"
  shows "bokeh_issue name rawtext t lineno inl options content =
           Inr ([Problematic rawtext rawtext
                   (System_message 3
                      (''Github issue number must be a number greater than or equal to 1; ''
                         @ py_repr t @ '' is invalid.'') lineno)],
                [System_message 3
                   (''Github issue number must be a number greater than or equal to 1; ''
                      @ py_repr t @ '' is invalid.'') lineno])"
  by (simp add: bokeh_issue_def invalid_number [OF assms] reporter_error_def problematic_def Let_def)

lemma invalid_pull:
  assumes "\<not> (\<exists>n. py_int t = Inr n \<and> 0 < n)"
  shows "bokeh_pull name rawtext t lineno inl options content =
           Inr ([Problematic rawtext rawtext
                   (System_message 3
                      (''Github pull request number must be a number greater than or equal to 1; ''
                         @ py_repr t @ '' is invalid.'') lineno)],
                [System_message 3
                   (''Github pull request number must be a number greater than or equal to 1; ''
                      @ py_repr t @ '' is invalid.'') lineno])"
  by (simp add: bokeh_pull_def invalid_number [OF assms] reporter_error_def problematic_def Let_def)

lemma contains_in_message:
  "py_contains (py_repr t) (pre @ py_repr t @ post)"
  "plain_text t \<Longrightarrow> py_contains t (pre @ py_repr t @ post)"
proof -
  show "py_contains (py_repr t) (pre @ py_repr t @ post)" by (rule py_contains_infix)
next
  assume "plain_text t"
  from py_repr_plain [OF this] obtain q where q: "py_repr t = q # t @ [q]" ..
  have "py_contains t ((pre @ [q]) @ t @ ([q] @ post))" by (rule py_contains_infix)
  then show "py_contains t (pre @ py_repr t @ post)" by (simp add: q)
qed

text \<open>
  C1. When the text of the issue role parses as an integer \<open>n > 0\<close>, \<open>bokeh_issue\<close>
  returns exactly one link node and no system message. The visible text of the link is
  \<^verbatim>\<open>"#" + str(n)\<close> and its target is the repository URL followed by \<^verbatim>\<open>/issues/\<close> and
  \<^verbatim>\<open>str(n)\<close>: both are built from the parsed integer, not from the text, so leading zeros,
  blanks, a plus sign or underscores of the text do not appear.
\<close>

theorem issue_link_for_positive_integer:
  assumes "py_int t = Inr n" and "0 < n" and "accepted_options options kw"
  shows "bokeh_issue name rawtext t lineno inl options content =
           Inr ([Reference rawtext (''#'' @ py_str n) (BOKEH_GH @ ''/issues/'' @ py_str n) kw], [])"
  using assms by (rule valid_issue)

theorem issue_link_for_positive_integer_witness:
  "py_int ''007'' = Inr 7 \<and> (0 :: int) < 7 \<and> accepted_options None [] \<and>
   bokeh_issue ''bokeh-issue'' '':bokeh-issue:`007`'' ''007'' 12
       \<lparr>env_app = \<lparr>config_version = ''3.5.0''\<rparr>\<rparr> None [] =
     Inr ([Reference '':bokeh-issue:`007`'' ''#7'' ''https://github.com/bokeh/bokeh/issues/7'' []], [])"
proof -
  have p: "py_int ''007'' = Inr 7" by code_simp
  have s: "py_str 7 = ''7''" by code_simp
  have a: "accepted_options None []" by (rule accepted_none)
  from issue_link_for_positive_integer [OF p _ a, of "''bokeh-issue''" "'':bokeh-issue:`007`''" 12
      "\<lparr>env_app = \<lparr>config_version = ''3.5.0''\<rparr>\<rparr>" "[]"]
  show ?thesis using p a by (simp add: s BOKEH_GH_def)
qed

text \<open>
  C2, as amended. When the text of the issue or pull-request role does not parse as an
  integer, or parses as an integer \<open>\<le> 0\<close>, the handler returns no link node (its one node
  is the problematic marker) and exactly one error message, and the message text contains
  \<^verbatim>\<open>repr(text)\<close>, the quoted and escaped form of the text. It contains the text itself
  whenever \<^verbatim>\<open>repr\<close> only wraps it in quotes, that is for \<open>plain_text\<close>.
\<close>

theorem invalid_number_reported_with_repr:
  assumes "\<not> (\<exists>n. py_int t = Inr n \<and> 0 < n)"
  shows "\<exists>msg_issue msg_pull text_issue text_pull.
           bokeh_issue name rawtext t lineno inl options content =
             Inr ([Problematic rawtext rawtext msg_issue], [msg_issue]) \<and>
           bokeh_pull name rawtext t lineno inl options content =
             Inr ([Problematic rawtext rawtext msg_pull], [msg_pull]) \<and>
           filter is_link [Problematic rawtext rawtext msg_issue] = [] \<and>
           filter is_link [Problematic rawtext rawtext msg_pull] = [] \<and>
           msg_issue = System_message 3 text_issue lineno \<and>
           msg_pull = System_message 3 text_pull lineno \<and>
           py_contains (py_repr t) text_issue \<and> py_contains (py_repr t) text_pull \<and>
           (plain_text t \<longrightarrow> py_contains t text_issue \<and> py_contains t text_pull)"
proof -
  let ?ti = "''Github issue number must be a number greater than or equal to 1; ''
               @ py_repr t @ '' is invalid.''"
  let ?tp = "''Github pull request number must be a number greater than or equal to 1; ''
               @ py_repr t @ '' is invalid.''"
  have i: "bokeh_issue name rawtext t lineno inl options content =
             Inr ([Problematic rawtext rawtext (System_message 3 ?ti lineno)],
                  [System_message 3 ?ti lineno])"
    by (rule invalid_issue [OF assms])
  have p: "bokeh_pull name rawtext t lineno inl options content =
             Inr ([Problematic rawtext rawtext (System_message 3 ?tp lineno)],
                  [System_message 3 ?tp lineno])"
    by (rule invalid_pull [OF assms])
  have ci: "py_contains (py_repr t) ?ti" and cp: "py_contains (py_repr t) ?tp"
    by (rule contains_in_message(1))+
  have pi: "py_contains t ?ti" and pp: "py_contains t ?tp" if "plain_text t"
    using that by (rule contains_in_message(2))+
  show ?thesis
  proof (intro exI conjI impI)
    show "bokeh_issue name rawtext t lineno inl options content =
            Inr ([Problematic rawtext rawtext (System_message 3 ?ti lineno)],
                 [System_message 3 ?ti lineno])" by (rule i)
    show "bokeh_pull name rawtext t lineno inl options content =
            Inr ([Problematic rawtext rawtext (System_message 3 ?tp lineno)],
                 [System_message 3 ?tp lineno])" by (rule p)
    show "filter is_link [Problematic rawtext rawtext (System_message 3 ?ti lineno)] = []"
      by simp
    show "filter is_link [Problematic rawtext rawtext (System_message 3 ?tp lineno)] = []"
      by simp
    show "System_message 3 ?ti lineno = System_message 3 ?ti lineno" ..
    show "System_message 3 ?tp lineno = System_message 3 ?tp lineno" ..
    show "py_contains (py_repr t) ?ti" by (rule ci)
    show "py_contains (py_repr t) ?tp" by (rule cp)
    show "py_contains t ?ti" if "plain_text t" using that by (rule pi)
    show "py_contains t ?tp" if "plain_text t" using that by (rule pp)
  qed
qed

theorem invalid_number_reported_with_repr_witness:
  "\<not> (\<exists>n. py_int ''abc'' = Inr n \<and> 0 < n) \<and> plain_text ''abc'' \<and>
   bokeh_issue ''bokeh-issue'' '':bokeh-issue:`abc`'' ''abc'' 12
       \<lparr>env_app = \<lparr>config_version = ''3.5.0''\<rparr>\<rparr> None [] =
     Inr ([Problematic '':bokeh-issue:`abc`'' '':bokeh-issue:`abc`''
             (System_message 3
                ''Github issue number must be a number greater than or equal to 1; 'abc' is invalid.''
                12)],
          [System_message 3
             ''Github issue number must be a number greater than or equal to 1; 'abc' is invalid.''
             12]) \<and>
   py_contains ''abc''
     ''Github issue number must be a number greater than or equal to 1; 'abc' is invalid.''"
proof -
  have inv: "\<not> (\<exists>n. py_int ''abc'' = Inr n \<and> 0 < n)"
  proof -
    have "py_int ''abc'' = Inl ValueError" by code_simp
    then show ?thesis by simp
  qed
  have plain: "plain_text ''abc''" by code_simp
  have r: "py_repr ''abc'' = [CHR 0x27] @ ''abc'' @ [CHR 0x27]" by code_simp
  from invalid_number_reported_with_repr [OF inv, of "''bokeh-issue''" "'':bokeh-issue:`abc`''" 12
      "\<lparr>env_app = \<lparr>config_version = ''3.5.0''\<rparr>\<rparr>" None "[]"]
  obtain mi ti where
    res: "bokeh_issue ''bokeh-issue'' '':bokeh-issue:`abc`'' ''abc'' 12
            \<lparr>env_app = \<lparr>config_version = ''3.5.0''\<rparr>\<rparr> None [] =
          Inr ([Problematic '':bokeh-issue:`abc`'' '':bokeh-issue:`abc`'' mi], [mi])"
    and mi: "mi = System_message 3 ti 12"
    and c: "plain_text ''abc'' \<longrightarrow> py_contains ''abc'' ti"
    by blast
  have lit: "bokeh_issue ''bokeh-issue'' '':bokeh-issue:`abc`'' ''abc'' 12
            \<lparr>env_app = \<lparr>config_version = ''3.5.0''\<rparr>\<rparr> None [] =
     Inr ([Problematic '':bokeh-issue:`abc`'' '':bokeh-issue:`abc`''
             (System_message 3
                ''Github issue number must be a number greater than or equal to 1; 'abc' is invalid.''
                12)],
          [System_message 3
             ''Github issue number must be a number greater than or equal to 1; 'abc' is invalid.''
             12])"
    by (simp add: invalid_issue [OF inv] r)
  from res lit mi have "ti = ''Github issue number must be a number greater than or equal to 1; 'abc' is invalid.''"
    by simp
  with c plain inv lit show ?thesis by simp
qed

text \<open>
  C2 as stated fails: a role text that spans two lines, \<^verbatim>\<open>12\<close>, line feed, \<^verbatim>\<open>34\<close>, is not
  an integer, and the message shows it as \<^verbatim>\<open>'12\n34'\<close> with a backslash and the letter n;
  the text with its line feed does not occur in the message.
\<close>

theorem newline_text_not_in_message:
  "py_int (''12'' @ [CHR 0x0A] @ ''34'') = Inl ValueError \<and>
   bokeh_issue ''bokeh-issue'' ''raw'' (''12'' @ [CHR 0x0A] @ ''34'') 12
       \<lparr>env_app = \<lparr>config_version = ''3.5.0''\<rparr>\<rparr> None [] =
     Inr ([Problematic ''raw'' ''raw''
             (System_message 3
                (''Github issue number must be a number greater than or equal to 1; ''
                   @ [CHR 0x27] @ ''12'' @ [CHR 0x5C] @ ''n34'' @ [CHR 0x27] @ '' is invalid.'')
                12)],
          [System_message 3
             (''Github issue number must be a number greater than or equal to 1; ''
                @ [CHR 0x27] @ ''12'' @ [CHR 0x5C] @ ''n34'' @ [CHR 0x27] @ '' is invalid.'')
             12]) \<and>
   \<not> py_contains (''12'' @ [CHR 0x0A] @ ''34'')
       (''Github issue number must be a number greater than or equal to 1; ''
          @ [CHR 0x27] @ ''12'' @ [CHR 0x5C] @ ''n34'' @ [CHR 0x27] @ '' is invalid.'')"
  by code_simp

text \<open>
  C3 as stated fails: on a validation failure the handler returns the problematic node
  together with the message, so the result has one node and one message, which is neither
  of the two shapes of the claim.
\<close>

theorem numeric_role_one_node_and_message:
  "(case bokeh_issue ''bokeh-issue'' '':bokeh-issue:`abc`'' ''abc'' 12
           \<lparr>env_app = \<lparr>config_version = ''3.5.0''\<rparr>\<rparr> None [] of
      Inl e \<Rightarrow> False
    | Inr (nodes, messages) \<Rightarrow> length nodes = 1 \<and> length messages = 1)"
  by code_simp

text \<open>
  C3, as amended. Every invocation of the issue or the pull-request role returns either
  exactly one link node and no message (success), or exactly one problematic node, which
  is not a link, and exactly one message, the one the node refers to (validation failure).
\<close>

theorem numeric_role_result_shapes:
  assumes "accepted_options options kw"
  shows "((\<exists>link. bokeh_issue name rawtext t lineno inl options content = Inr ([link], []) \<and>
             is_link link) \<or>
          (\<exists>msg. bokeh_issue name rawtext t lineno inl options content =
             Inr ([Problematic rawtext rawtext msg], [msg]))) \<and>
         ((\<exists>link. bokeh_pull name rawtext t lineno inl options content = Inr ([link], []) \<and>
             is_link link) \<or>
          (\<exists>msg. bokeh_pull name rawtext t lineno inl options content =
             Inr ([Problematic rawtext rawtext msg], [msg])))"
proof (cases "\<exists>n. py_int t = Inr n \<and> 0 < n")
  case True
  then obtain n where n: "py_int t = Inr n" "0 < n" by blast
  show ?thesis
    by (simp add: valid_issue [OF n assms] valid_pull [OF n assms])
next
  case False
  show ?thesis
    by (simp add: invalid_issue [OF False] invalid_pull [OF False])
qed

theorem numeric_role_result_shapes_witness:
  "accepted_options (Some [(''class'', [''gh''])]) [(''classes'', [''gh''])] \<and>
   bokeh_pull ''bokeh-pull'' '':bokeh-pull:`1698`'' ''1698'' 12
       \<lparr>env_app = \<lparr>config_version = ''3.5.0''\<rparr>\<rparr> (Some [(''class'', [''gh''])]) [] =
     Inr ([Reference '':bokeh-pull:`1698`'' ''pull request 1698''
             ''https://github.com/bokeh/bokeh/pull/1698'' [(''classes'', [''gh''])]], []) \<and>
   (\<exists>msg. bokeh_issue ''bokeh-issue'' '':bokeh-issue:`0`'' ''0'' 12
       \<lparr>env_app = \<lparr>config_version = ''3.5.0''\<rparr>\<rparr> (Some [(''class'', [''gh''])]) [] =
     Inr ([Problematic '':bokeh-issue:`0`'' '':bokeh-issue:`0`'' msg], [msg]))"
proof -
  have a: "accepted_options (Some [(''class'', [''gh''])]) [(''classes'', [''gh''])]"
    by (rule accepted_class)
  have pull: "bokeh_pull ''bokeh-pull'' '':bokeh-pull:`1698`'' ''1698'' 12
       \<lparr>env_app = \<lparr>config_version = ''3.5.0''\<rparr>\<rparr> (Some [(''class'', [''gh''])]) [] =
     Inr ([Reference '':bokeh-pull:`1698`'' ''pull request 1698''
             ''https://github.com/bokeh/bokeh/pull/1698'' [(''classes'', [''gh''])]], [])"
    by code_simp
  have zero: "\<not> (\<exists>link. bokeh_issue ''bokeh-issue'' '':bokeh-issue:`0`'' ''0'' 12
       \<lparr>env_app = \<lparr>config_version = ''3.5.0''\<rparr>\<rparr> (Some [(''class'', [''gh''])]) [] =
       Inr ([link], []) \<and> is_link link)"
  proof -
    have "py_int ''0'' = Inr 0" by code_simp
    then have "\<not> (\<exists>n. py_int ''0'' = Inr n \<and> 0 < n)" by simp
    from invalid_issue [OF this] show ?thesis by simp
  qed
  from numeric_role_result_shapes [OF a, of "''bokeh-issue''" "'':bokeh-issue:`0`''" "''0''" 12
      "\<lparr>env_app = \<lparr>config_version = ''3.5.0''\<rparr>\<rparr>" "[]"] zero
  have "\<exists>msg. bokeh_issue ''bokeh-issue'' '':bokeh-issue:`0`'' ''0'' 12
       \<lparr>env_app = \<lparr>config_version = ''3.5.0''\<rparr>\<rparr> (Some [(''class'', [''gh''])]) [] =
     Inr ([Problematic '':bokeh-issue:`0`'' '':bokeh-issue:`0`'' msg], [msg])"
    by blast
  with a pull show ?thesis by blast
qed

text \<open>
  C4, as amended. For every text \<open>t\<close> the commit role validates nothing and returns exactly
  one link node and no message. The target is the repository URL followed by \<^verbatim>\<open>/commit/\<close>
  and \<open>t\<close>; the visible text is \<^verbatim>\<open>"commit "\<close> followed by \<^verbatim>\<open>unescape(t)\<close>, which is \<open>t\<close> itself
  when \<open>t\<close> has no NUL character, that is when the source had no backslash escape.
\<close>

theorem commit_link_unescaped_label:
  assumes "accepted_options options kw"
  shows "bokeh_commit name rawtext t lineno inl options content =
           Inr ([Reference rawtext (''commit '' @ unescape t) (BOKEH_GH @ ''/commit/'' @ t) kw], []) \<and>
         (CHR 0x00 \<notin> set t \<longrightarrow> unescape t = t)"
  using assms by (simp add: bokeh_commit_def link_node_accepted unescape_no_nul)

theorem commit_link_unescaped_label_witness:
  "accepted_options None [] \<and> CHR 0x00 \<notin> set ''bf19bcb'' \<and>
   bokeh_commit ''bokeh-commit'' '':bokeh-commit:`bf19bcb`'' ''bf19bcb'' 12
       \<lparr>env_app = \<lparr>config_version = ''3.5.0''\<rparr>\<rparr> None [] =
     Inr ([Reference '':bokeh-commit:`bf19bcb`'' ''commit bf19bcb''
             ''https://github.com/bokeh/bokeh/commit/bf19bcb'' []], [])"
proof -
  have a: "accepted_options None []" by (rule accepted_none)
  have n: "CHR 0x00 \<notin> set ''bf19bcb''" by simp
  from commit_link_unescaped_label [OF a, of "''bokeh-commit''" "'':bokeh-commit:`bf19bcb`''"
      "''bf19bcb''" 12 "\<lparr>env_app = \<lparr>config_version = ''3.5.0''\<rparr>\<rparr>" "[]"] n
  show ?thesis using a by (simp add: BOKEH_GH_def)
qed

text \<open>
  C4 as stated fails: for the source \<^verbatim>\<open>\a\<close> docutils passes NUL followed by \<^verbatim>\<open>a\<close>; the
  visible text is \<^verbatim>\<open>commit a\<close>, not \<^verbatim>\<open>"commit "\<close> followed by the text.
\<close>

theorem commit_label_drops_escape:
  "bokeh_commit ''bokeh-commit'' ''raw'' [CHR 0x00, CHR ''a''] 12
       \<lparr>env_app = \<lparr>config_version = ''3.5.0''\<rparr>\<rparr> None [] =
     Inr ([Reference ''raw'' ''commit a''
             (''https://github.com/bokeh/bokeh/commit/'' @ [CHR 0x00, CHR ''a'']) []], []) \<and>
   ''commit a'' \<noteq> ''commit '' @ [CHR 0x00, CHR ''a'']"
  by code_simp

text \<open>
  C5, as amended. For every path fragment \<open>p\<close> and configured version \<open>v\<close> the source-tree
  role returns one reference node and no message. The node is built with the text \<open>p\<close> and
  the target that is the repository URL followed by \<^verbatim>\<open>/tree/\<close>, the tag, \<^verbatim>\<open>/\<close> and \<open>p\<close>,
  where the tag is \<^verbatim>\<open>main\<close> when \<open>v\<close> contains a hyphen and \<open>v\<close> otherwise. Its visible text
  is \<^verbatim>\<open>unescape(p)\<close>, which is exactly \<open>p\<close> when \<open>p\<close> has no NUL character, that is when the
  source had no backslash escape.
\<close>

theorem tree_link_for_version:
  assumes "accepted_options options kw"
  shows "\<exists>link.
           bokeh_tree name rawtext p lineno inl options content = Inr ([link], []) \<and>
           link = Reference rawtext p
                    (BOKEH_GH @ ''/tree/''
                       @ (if CHR ''-'' \<in> set (config_version (env_app inl)) then ''main''
                          else config_version (env_app inl))
                       @ ''/'' @ p) kw \<and>
           astext link = unescape p \<and>
           (CHR 0x00 \<notin> set p \<longrightarrow> astext link = p)"
  using assms
  by (simp add: bokeh_tree_def accepted_options_def reference_def Let_def unescape_no_nul)

theorem tree_link_for_version_witness:
  "accepted_options None [] \<and> CHR 0x00 \<notin> set ''examples'' \<and>
   bokeh_tree ''bokeh-tree'' '':bokeh-tree:`examples`'' ''examples'' 12
       \<lparr>env_app = \<lparr>config_version = ''3.5.0''\<rparr>\<rparr> None [] =
     Inr ([Reference '':bokeh-tree:`examples`'' ''examples''
             ''https://github.com/bokeh/bokeh/tree/3.5.0/examples'' []], []) \<and>
   astext (Reference '':bokeh-tree:`examples`'' ''examples''
             ''https://github.com/bokeh/bokeh/tree/3.5.0/examples'' []) = ''examples'' \<and>
   bokeh_tree ''bokeh-tree'' '':bokeh-tree:`examples`'' ''examples'' 12
       \<lparr>env_app = \<lparr>config_version = ''3.5.0-dev1''\<rparr>\<rparr> None [] =
     Inr ([Reference '':bokeh-tree:`examples`'' ''examples''
             ''https://github.com/bokeh/bokeh/tree/main/examples'' []], []) \<and>
   astext (Reference '':bokeh-tree:`examples`'' ''examples''
             ''https://github.com/bokeh/bokeh/tree/main/examples'' []) = ''examples''"
proof -
  have a: "accepted_options None []" by (rule accepted_none)
  have n: "CHR 0x00 \<notin> set ''examples''" by simp
  from tree_link_for_version [OF a, of "''bokeh-tree''" "'':bokeh-tree:`examples`''"
      "''examples''" 12 "\<lparr>env_app = \<lparr>config_version = ''3.5.0''\<rparr>\<rparr>" "[]"]
    tree_link_for_version [OF a, of "''bokeh-tree''" "'':bokeh-tree:`examples`''"
      "''examples''" 12 "\<lparr>env_app = \<lparr>config_version = ''3.5.0-dev1''\<rparr>\<rparr>" "[]"]
  show ?thesis using a n by (simp add: BOKEH_GH_def)
qed

text \<open>
  C5 as stated fails: for the source \<^verbatim>\<open>\a\<close> docutils passes NUL followed by \<^verbatim>\<open>a\<close> as the
  path fragment; the reference node shows \<^verbatim>\<open>a\<close>, which is not the path fragment.
\<close>

theorem tree_label_drops_escape:
  "bokeh_tree ''bokeh-tree'' ''raw'' [CHR 0x00, CHR ''a''] 12
       \<lparr>env_app = \<lparr>config_version = ''3.5.0''\<rparr>\<rparr> None [] =
     Inr ([Reference ''raw'' [CHR 0x00, CHR ''a'']
             (''https://github.com/bokeh/bokeh/tree/3.5.0/'' @ [CHR 0x00, CHR ''a'']) []], []) \<and>
   astext (Reference ''raw'' [CHR 0x00, CHR ''a'']
             (''https://github.com/bokeh/bokeh/tree/3.5.0/'' @ [CHR 0x00, CHR ''a'']) []) = ''a'' \<and>
   ''a'' \<noteq> [CHR 0x00, CHR ''a'']"
  by code_simp

text \<open>
  C6. The pull-request role is the issue role under substitution: both handlers are the
  one contract \<open>numeric_id_role\<close>, the issue role at noun \<^verbatim>\<open>issue\<close>, prefix \<^verbatim>\<open>#\<close> and path
  \<^verbatim>\<open>issues\<close>, the pull-request role at noun \<^verbatim>\<open>pull request\<close>, prefix \<^verbatim>\<open>pull request \<close> and
  path \<^verbatim>\<open>pull\<close>; the error messages differ in the noun only.
\<close>

theorem numeric_roles_refine_one_contract:
  "bokeh_issue name rawtext t lineno inl options content =
     numeric_id_role ''issue'' ''#'' ''issues'' rawtext t lineno options \<and>
   bokeh_pull name rawtext t lineno inl options content =
     numeric_id_role ''pull request'' ''pull request '' ''pull'' rawtext t lineno options"
proof (cases "py_int t")
  case (Inl e)
  then have "e = ValueError" by (rule py_int_error)
  with Inl show ?thesis
    by (simp add: bokeh_issue_def bokeh_pull_def numeric_id_role_def reporter_error_def
        problematic_def Let_def)
next
  case (Inr n)
  show ?thesis
  proof (cases "0 < n")
    case True
    with Inr show ?thesis
      by (simp add: bokeh_issue_def bokeh_pull_def numeric_id_role_def make_gh_link_node_def
          unescape_no_nul py_str_no_nul Let_def split: sum.splits)
  next
    case False
    with Inr show ?thesis
      by (simp add: bokeh_issue_def bokeh_pull_def numeric_id_role_def reporter_error_def
          problematic_def Let_def)
  qed
qed

text \<open>
  C7, as amended. The minimum-version role loads the project descriptor inside the call
  (the result is a function of the file as that call finds it), takes the
  \<^verbatim>\<open>requires-python\<close> constraint, strips its leading \<^verbatim>\<open>>\<close> and \<^verbatim>\<open>=\<close> characters, and returns
  the rest as a single text node with no message; for \<^verbatim>\<open>>=3.10\<close> the text is \<^verbatim>\<open>3.10\<close>.
\<close>

theorem minpy_strips_greater_equal:
  assumes "file = Some \<lparr>project = Some table\<rparr>" and "requires_python table = Some constraint"
  shows "bokeh_minpy file name rawtext text lineno inl options content =
           Inr ([Text (dropWhile (\<lambda>c. c = CHR ''>'' \<or> c = CHR ''='') constraint)], [])"
  using minpy_well_formed [OF assms] by (simp only: py_lstrip_gt_eq)

theorem minpy_strips_greater_equal_witness:
  "requires_python \<lparr>requires_python = Some ''>=3.10'', dependencies = Some [''numpy'']\<rparr>
     = Some ''>=3.10'' \<and>
   bokeh_minpy
       (Some \<lparr>project = Some \<lparr>requires_python = Some ''>=3.10'', dependencies = Some [''numpy'']\<rparr>\<rparr>)
       ''bokeh-minpy'' '':bokeh-minpy:`x`'' ''x'' 12
       \<lparr>env_app = \<lparr>config_version = ''3.5.0''\<rparr>\<rparr> None [] =
     Inr ([Text ''3.10''], [])"
proof -
  have r: "requires_python \<lparr>requires_python = Some ''>=3.10'', dependencies = Some [''numpy'']\<rparr>
     = Some ''>=3.10''" by simp
  from minpy_strips_greater_equal [OF refl r, of "''bokeh-minpy''" "'':bokeh-minpy:`x`''" "''x''" 12
      "\<lparr>env_app = \<lparr>config_version = ''3.5.0''\<rparr>\<rparr>" None "[]"]
  show ?thesis by simp
qed

text \<open>
  C7 as stated fails: stripping every leading comparison operator character would turn
  \<^verbatim>\<open>~=3.10\<close> and \<^verbatim>\<open><=3.10\<close> into \<^verbatim>\<open>3.10\<close>, but the role returns both unchanged.
\<close>

theorem minpy_keeps_other_operators:
  "bokeh_minpy
       (Some \<lparr>project = Some \<lparr>requires_python = Some ''~=3.10'', dependencies = Some []\<rparr>\<rparr>)
       ''bokeh-minpy'' ''raw'' [] 12 \<lparr>env_app = \<lparr>config_version = ''3.5.0''\<rparr>\<rparr> None [] =
     Inr ([Text ''~=3.10''], []) \<and>
   strip_comparison_operators ''~=3.10'' = ''3.10'' \<and>
   bokeh_minpy
       (Some \<lparr>project = Some \<lparr>requires_python = Some ''<=3.10'', dependencies = Some []\<rparr>\<rparr>)
       ''bokeh-minpy'' ''raw'' [] 12 \<lparr>env_app = \<lparr>config_version = ''3.5.0''\<rparr>\<rparr> None [] =
     Inr ([Text ''<=3.10''], []) \<and>
   strip_comparison_operators ''<=3.10'' = ''3.10''"
  by (simp add: bokeh_minpy_def toml_load_def py_lstrip_def strip_comparison_operators_def)

text \<open>
  C8. For a descriptor that loads and has the \<^verbatim>\<open>project\<close> table with its \<^verbatim>\<open>dependencies\<close>
  list, the dependencies role returns a single bullet-list node and no message; the list
  has exactly one item per dependency, each holding that dependency as text, in the order
  of the file. For \<^verbatim>\<open>["numpy", "requests"]\<close> it has the two items \<^verbatim>\<open>numpy\<close> and \<^verbatim>\<open>requests\<close>.
\<close>

theorem requires_lists_dependencies_in_order:
  assumes "file = Some \<lparr>project = Some table\<rparr>" and "dependencies table = Some deps"
  shows "bokeh_requires file name rawtext text lineno inl options content =
           Inr ([Bullet_list (map (\<lambda>dep. List_item [] [Text dep]) deps)], [])"
  using assms by (simp add: bokeh_requires_def toml_load_def requires_loop_map)

theorem requires_lists_dependencies_in_order_witness:
  "dependencies \<lparr>requires_python = Some ''>=3.10'', dependencies = Some [''numpy'', ''requests'']\<rparr>
     = Some [''numpy'', ''requests''] \<and>
   bokeh_requires
       (Some \<lparr>project = Some \<lparr>requires_python = Some ''>=3.10'',
                               dependencies = Some [''numpy'', ''requests'']\<rparr>\<rparr>)
       ''bokeh-requires'' ''raw'' [] 12 \<lparr>env_app = \<lparr>config_version = ''3.5.0''\<rparr>\<rparr> None [] =
     Inr ([Bullet_list [List_item [] [Text ''numpy''], List_item [] [Text ''requests'']]], [])"
proof -
  have d: "dependencies \<lparr>requires_python = Some ''>=3.10'', dependencies = Some [''numpy'', ''requests'']\<rparr>
     = Some [''numpy'', ''requests'']" by simp
  from requires_lists_dependencies_in_order [OF refl d, of "''bokeh-requires''" "''raw''" "[]" 12
      "\<lparr>env_app = \<lparr>config_version = ''3.5.0''\<rparr>\<rparr>" None "[]"]
  show ?thesis by simp
qed



text \<open>
  C10. The minimum-version role removes a prefix of the constraint that consists of \<^verbatim>\<open>>\<close>
  and \<^verbatim>\<open>=\<close> characters only, in any number and order, and stops at the first other
  character; a constraint that begins with any other character, such as \<^verbatim>\<open><=3.10\<close> or
  \<^verbatim>\<open>~=3.10\<close>, is returned whole, operator included.
\<close>

theorem minpy_removes_only_leading_gt_eq:
  assumes "file = Some \<lparr>project = Some table\<rparr>" and "requires_python table = Some constraint"
  shows "\<exists>removed out.
           bokeh_minpy file name rawtext text lineno inl options content = Inr ([Text out], []) \<and>
           constraint = removed @ out \<and>
           (\<forall>c \<in> set removed. c = CHR ''>'' \<or> c = CHR ''='') \<and>
           (out = [] \<or> \<not> (hd out = CHR ''>'' \<or> hd out = CHR ''='')) \<and>
           (\<forall>c rest. constraint = c # rest \<longrightarrow> \<not> (c = CHR ''>'' \<or> c = CHR ''='') \<longrightarrow>
              out = constraint)"
proof -
  let ?P = "\<lambda>c. c = CHR ''>'' \<or> c = CHR ''=''"
  have res: "bokeh_minpy file name rawtext text lineno inl options content =
               Inr ([Text (dropWhile ?P constraint)], [])"
    using minpy_well_formed [OF assms] by (simp only: py_lstrip_gt_eq)
  show ?thesis
    apply (rule exI [of _ "takeWhile ?P constraint"])
    apply (rule exI [of _ "dropWhile ?P constraint"])
    apply (intro conjI allI impI)
        apply (rule res)
       apply (rule lstrip_splits(1))
      apply (rule lstrip_splits(2))
     apply (rule lstrip_splits(3))
    apply (erule (1) lstrip_splits(4))
    done
qed

theorem minpy_removes_only_leading_gt_eq_witness:
  "bokeh_minpy
       (Some \<lparr>project = Some \<lparr>requires_python = Some ''<=3.10'', dependencies = None\<rparr>\<rparr>)
       ''bokeh-minpy'' ''raw'' [] 12 \<lparr>env_app = \<lparr>config_version = ''3.5.0''\<rparr>\<rparr> None [] =
     Inr ([Text ''<=3.10''], []) \<and>
   bokeh_minpy
       (Some \<lparr>project = Some \<lparr>requires_python = Some ''~=3.10'', dependencies = None\<rparr>\<rparr>)
       ''bokeh-minpy'' ''raw'' [] 12 \<lparr>env_app = \<lparr>config_version = ''3.5.0''\<rparr>\<rparr> None [] =
     Inr ([Text ''~=3.10''], []) \<and>
   bokeh_minpy
       (Some \<lparr>project = Some \<lparr>requires_python = Some ''=>>=3.10'', dependencies = None\<rparr>\<rparr>)
       ''bokeh-minpy'' ''raw'' [] 12 \<lparr>env_app = \<lparr>config_version = ''3.5.0''\<rparr>\<rparr> None [] =
     Inr ([Text ''3.10''], [])"
proof -
  let ?call = "\<lambda>c. bokeh_minpy
       (Some \<lparr>project = Some \<lparr>requires_python = Some c, dependencies = None\<rparr>\<rparr>)
       ''bokeh-minpy'' ''raw'' [] 12 \<lparr>env_app = \<lparr>config_version = ''3.5.0''\<rparr>\<rparr> None []"
  have r: "requires_python \<lparr>requires_python = Some c, dependencies = None\<rparr> = Some c"
    for c :: string by simp
  have kept: "?call (x # rest) = Inr ([Text (x # rest)], [])"
    if "x \<noteq> CHR ''>''" and "x \<noteq> CHR ''=''" for x rest
  proof -
    from minpy_removes_only_leading_gt_eq [OF refl r, of "x # rest" "''bokeh-minpy''" "''raw''" "[]" 12
      "\<lparr>env_app = \<lparr>config_version = ''3.5.0''\<rparr>\<rparr>" None "[]"]
    obtain removed out where
      o: "?call (x # rest) = Inr ([Text out], [])"
      and k: "\<forall>c r. x # rest = c # r \<longrightarrow> \<not> (c = CHR ''>'' \<or> c = CHR ''='') \<longrightarrow> out = x # rest"
      by (elim exE conjE) (rule that)
    from k that have "out = x # rest" by simp
    with o show ?thesis by simp
  qed
  have first: "?call ''<=3.10'' = Inr ([Text ''<=3.10''], [])" by (rule kept) simp_all
  have second: "?call ''~=3.10'' = Inr ([Text ''~=3.10''], [])" by (rule kept) simp_all
  have third: "?call ''=>>=3.10'' = Inr ([Text ''3.10''], [])"
    by (simp add: bokeh_minpy_def toml_load_def py_lstrip_def)
  from first second third show ?thesis by (intro conjI)
qed

end
